theory Spec2Isabelle
  imports Complex_Main
begin

section \<open>The audio player widget\<close>

text \<open>
  The component \<open>AudioPlayer\<close> keeps six pieces of React state and drives a platform
  sound object (\<open>Audio.Sound\<close> of expo-av) through promises. The model below makes
  three things explicit that the TypeScript leaves implicit:
  \<^item> every handler reads the state of the render that created it and writes through the
    setters, so a handler is a function from the rendered state to the next state;
  \<^item> every platform promise either resolves or rejects; what it does is not decided by
    the widget, so it is an input of the handler (the record \<open>platform\<close>);
  \<^item> every call that leaves the widget (platform calls, \<open>console.error\<close>, the parent's
    callback) is returned, in order, as a list of effects.
  Animations (shared values of reanimated) carry no logic of their own and are left out, and
  so is the audio session configuration done once on mount.
\<close>

subsection \<open>Numbers\<close>

text \<open>
  Milliseconds and pixel offsets are JavaScript numbers. Finite values are modelled as
  reals (rounding is not modelled); the three special values are kept, because the
  division of the tap handler can produce them.
\<close>

datatype number = Num real | Infinity | NegInfinity | NaN

text \<open>\<open>x / y\<close> for finite \<open>x\<close> and \<open>y\<close>, where a zero \<open>y\<close> is the positive zero.\<close>

definition divide_number :: "real \<Rightarrow> real \<Rightarrow> number" where
  "divide_number x y =
     (if y \<noteq> 0 then Num (x / y)
      else if 0 < x then Infinity
      else if x < 0 then NegInfinity
      else NaN)"

text \<open>\<open>Math.min(a, x)\<close> and \<open>Math.max(a, x)\<close> for a finite \<open>a\<close>.\<close>

fun Math_min :: "real \<Rightarrow> number \<Rightarrow> number" where
  "Math_min a (Num v) = Num (min a v)"
| "Math_min a Infinity = Num a"
| "Math_min a NegInfinity = NegInfinity"
| "Math_min a NaN = NaN"

fun Math_max :: "real \<Rightarrow> number \<Rightarrow> number" where
  "Math_max a (Num v) = Num (max a v)"
| "Math_max a Infinity = Infinity"
| "Math_max a NegInfinity = Num a"
| "Math_max a NaN = NaN"

text \<open>\<open>d * x\<close> for a finite \<open>d\<close>.\<close>

fun times_number :: "real \<Rightarrow> number \<Rightarrow> number" where
  "times_number d (Num v) = Num (d * v)"
| "times_number d Infinity =
     (if 0 < d then Infinity else if d < 0 then NegInfinity else NaN)"
| "times_number d NegInfinity =
     (if 0 < d then NegInfinity else if d < 0 then Infinity else NaN)"
| "times_number d NaN = NaN"

subsection \<open>Data\<close>

text \<open>The identity of an \<open>Audio.Sound\<close> object.\<close>

type_synonym handle = nat

text \<open>
  A playback status is the union the platform delivers: either the record of a loaded
  sound, or a not-loaded status with an optional error text. Only the fields the widget
  reads are kept. \<open>didJustFinish\<close> exists on the loaded variant only.
\<close>

record playback =
  durationMillis :: "real option"
  positionMillis :: real
  playing :: bool
  didJustFinish :: bool

datatype status = Loaded playback | NotLoaded "string option"

text \<open>What the widget does to the outside, in the order it does it.\<close>

datatype effect =
    CreateAsync string "handle option"
  | UnloadAsync handle
  | SetOnPlaybackStatusUpdate handle
  | PlayAsync handle
  | PauseAsync handle
  | SetPositionAsync handle number
  | ConsoleError string
  | OnPlaybackStatusUpdate status

text \<open>
  \<open>CreateAsync uri r\<close> records the call of \<open>Audio.Sound.createAsync\<close> together with its
  outcome: \<open>Some h\<close> when the promise resolved with the sound \<open>h\<close>, \<open>None\<close> when it
  rejected. \<open>OnPlaybackStatusUpdate s\<close> is the call of the parent's callback with \<open>s\<close>.
\<close>

fun isPlatformCall :: "effect \<Rightarrow> bool" where
  "isPlatformCall (ConsoleError m) = False"
| "isPlatformCall (OnPlaybackStatusUpdate s) = False"
| "isPlatformCall e = True"

text \<open>The outcome of each platform promise at the moment a handler runs.\<close>

record platform =
  createAsync :: "handle option"
  unloadAsync :: bool
  playAsync :: bool
  pauseAsync :: bool
  setPositionAsync :: bool

text \<open>The properties passed by the host; the callback is optional.\<close>

record props =
  fileUrl :: string
  title :: "string option"
  onPlaybackStatusUpdate :: bool

text \<open>The six \<open>useState\<close> cells; \<open>None\<close> is \<open>null\<close>.\<close>

record widget =
  sound :: "handle option"
  isPlaying :: bool
  isLoading :: bool
  duration :: "real option"
  position :: "real option"
  error :: "string option"

definition initial :: widget where
  "initial = \<lparr>sound = None, isPlaying = False, isLoading = False,
              duration = None, position = None, error = None\<rparr>"

subsection \<open>Handlers\<close>

text \<open>\<open>x || null\<close> on an optional number: \<open>undefined\<close> and \<open>0\<close> both give \<open>null\<close>.\<close>

definition orNull :: "real option \<Rightarrow> real option" where
  "orNull x = (case x of None \<Rightarrow> None | Some v \<Rightarrow> if v = 0 then None else Some v)"

text \<open>
  \<open>loadAudio\<close>: the body of the \<open>try\<close> after the optional unload is \<open>createSound\<close>; the
  \<open>catch\<close> is \<open>loadFailed\<close>; the \<open>finally\<close> clears the loading flag on every path.
\<close>

definition loadFailed :: "widget \<Rightarrow> effect list \<Rightarrow> widget \<times> effect list" where
  "loadFailed w done =
     (w\<lparr>error := Some ''Gagal memuat file audio'', isLoading := False\<rparr>,
      done @ [ConsoleError ''Error loading audio:''])"

definition createSound :: "string \<Rightarrow> platform \<Rightarrow> widget \<Rightarrow> effect list \<Rightarrow> widget \<times> effect list" where
  "createSound uri p w done =
     (case createAsync p of
        None \<Rightarrow> loadFailed w (done @ [CreateAsync uri None])
      | Some newSound \<Rightarrow>
          (w\<lparr>sound := Some newSound, isLoading := False\<rparr>,
           done @ [CreateAsync uri (Some newSound), SetOnPlaybackStatusUpdate newSound]))"

definition loadAudio :: "string \<Rightarrow> platform \<Rightarrow> widget \<Rightarrow> widget \<times> effect list" where
  "loadAudio uri p w =
     (let w1 = w\<lparr>isLoading := True, error := None\<rparr> in
      case sound w of
        None \<Rightarrow> createSound uri p w1 []
      | Some old \<Rightarrow>
          if unloadAsync p then createSound uri p (w1\<lparr>sound := None\<rparr>) [UnloadAsync old]
          else loadFailed w1 [UnloadAsync old])"

text \<open>
  \<open>playPause\<close>: without a sound it awaits \<open>loadAudio\<close> and returns; with a sound it
  awaits one of \<open>pauseAsync\<close> and \<open>playAsync\<close>, and its \<open>catch\<close> sets the error text.
\<close>

definition playPause :: "string \<Rightarrow> platform \<Rightarrow> widget \<Rightarrow> widget \<times> effect list" where
  "playPause uri p w =
     (case sound w of
        None \<Rightarrow> loadAudio uri p w
      | Some s \<Rightarrow>
          if isPlaying w then
            (if pauseAsync p then (w, [PauseAsync s])
             else (w\<lparr>error := Some ''Gagal memutar audio''\<rparr>,
                   [PauseAsync s, ConsoleError ''Error playing audio:'']))
          else
            (if playAsync p then (w, [PlayAsync s])
             else (w\<lparr>error := Some ''Gagal memutar audio''\<rparr>,
                   [PlayAsync s, ConsoleError ''Error playing audio:''])))"

definition restart :: "platform \<Rightarrow> widget \<Rightarrow> widget \<times> effect list" where
  "restart p w =
     (case sound w of
        None \<Rightarrow> (w, [])
      | Some s \<Rightarrow>
          if \<not> setPositionAsync p then
            (w\<lparr>error := Some ''Gagal mengulang audio''\<rparr>,
             [SetPositionAsync s (Num 0), ConsoleError ''Error restarting audio:''])
          else if \<not> isPlaying w then
            (if playAsync p then (w, [SetPositionAsync s (Num 0), PlayAsync s])
             else (w\<lparr>error := Some ''Gagal mengulang audio''\<rparr>,
                   [SetPositionAsync s (Num 0), PlayAsync s,
                    ConsoleError ''Error restarting audio:'']))
          else (w, [SetPositionAsync s (Num 0)]))"

text \<open>\<open>seekTo\<close>: its \<open>catch\<close> logs and does nothing else.\<close>

definition seekTo :: "platform \<Rightarrow> number \<Rightarrow> widget \<Rightarrow> widget \<times> effect list" where
  "seekTo p percentage w =
     (case sound w of
        None \<Rightarrow> (w, [])
      | Some s \<Rightarrow>
          (case orNull (duration w) of
             None \<Rightarrow> (w, [])
           | Some d \<Rightarrow>
               (let newPosition = times_number d percentage in
                if setPositionAsync p then (w, [SetPositionAsync s newPosition])
                else (w, [SetPositionAsync s newPosition,
                          ConsoleError ''Error seeking audio:'']))))"

text \<open>
  The \<open>onPress\<close> of the progress track; \<open>width\<close> is the window width read once from
  \<open>Dimensions\<close>.
\<close>

definition progressBarPress :: "real \<Rightarrow> platform \<Rightarrow> real \<Rightarrow> widget \<Rightarrow> widget \<times> effect list" where
  "progressBarPress width p locationX w =
     (let progressBarWidth = width - 64;
          percentage = divide_number locationX progressBarWidth
      in seekTo p (Math_max 0 (Math_min 1 percentage)) w)"

text \<open>
  The function given to \<open>setOnPlaybackStatusUpdate\<close>. It only writes state. The two
  \<open>runOnJS\<close> setters of a finished track run after the plain setters, so they win.
\<close>

definition statusUpdate :: "props \<Rightarrow> status \<Rightarrow> widget \<Rightarrow> widget \<times> effect list" where
  "statusUpdate pr st w =
     (case st of
        Loaded s \<Rightarrow>
          (let w1 = w\<lparr>duration := orNull (durationMillis s),
                      position := orNull (Some (positionMillis s)),
                      isPlaying := playing s\<rparr>;
               w2 = (if didJustFinish s then w1\<lparr>isPlaying := False, position := Some 0\<rparr>
                     else w1)
           in (w2, if onPlaybackStatusUpdate pr then [OnPlaybackStatusUpdate st] else []))
      | NotLoaded err \<Rightarrow>
          (case err of
             None \<Rightarrow> (w, [])
           | Some m \<Rightarrow>
               if m = [] then (w, [])
               else (w\<lparr>error := Some ''Error loading audio''\<rparr>,
                     [ConsoleError ''Audio playback error:''])))"

text \<open>
  The cleanup returned by the mount effect, with its free variable \<open>sound\<close> as a
  parameter.
\<close>

definition cleanup :: "handle option \<Rightarrow> effect list" where
  "cleanup snd_var = (case snd_var of None \<Rightarrow> [] | Some s \<Rightarrow> [UnloadAsync s])"

text \<open>
  The mount effect has the empty dependency list, so React runs it once, after the first
  render, and keeps the cleanup that run returned until the component unmounts. The
  \<open>sound\<close> of that closure is the binding of the first render, which is the initial
  state; the state at the time of the unmount is not read.
\<close>

definition unmount :: "widget \<Rightarrow> effect list" where
  "unmount w = cleanup (sound initial)"

subsection \<open>Events\<close>

text \<open>
  What can happen to a mounted widget. The buttons are gated as the JSX gates them: the
  play button is disabled while loading, the restart button is disabled without a sound,
  the progress track is rendered only with a truthy duration, and the status function is
  registered on a created sound only.
\<close>

datatype event =
    PressPlay platform
  | PressRestart platform
  | PressProgressBar platform real
  | StatusUpdate status

fun step :: "props \<Rightarrow> real \<Rightarrow> event \<Rightarrow> widget \<Rightarrow> widget \<times> effect list" where
  "step pr width (PressPlay p) w =
     (if isLoading w then (w, []) else playPause (fileUrl pr) p w)"
| "step pr width (PressRestart p) w =
     (if sound w = None then (w, []) else restart p w)"
| "step pr width (PressProgressBar p locationX) w =
     (if orNull (duration w) = None then (w, []) else progressBarPress width p locationX w)"
| "step pr width (StatusUpdate st) w =
     (if sound w = None then (w, []) else statusUpdate pr st w)"

text \<open>A run of events from a state, collecting the effects.\<close>

fun run :: "props \<Rightarrow> real \<Rightarrow> event list \<Rightarrow> widget \<times> effect list \<Rightarrow> widget \<times> effect list" where
  "run pr width [] c = c"
| "run pr width (e # es) c =
     (let r = step pr width e (fst c) in run pr width es (fst r, snd c @ snd r))"

subsection \<open>Formatting a time\<close>

text \<open>\<open>a % b\<close> on integers: the remainder has the sign of the dividend.\<close>

definition js_rem :: "int \<Rightarrow> int \<Rightarrow> int" where
  "js_rem a b = sgn a * (\<bar>a\<bar> mod \<bar>b\<bar>)"

definition digit :: "nat \<Rightarrow> char" where
  "digit n = ''0123456789'' ! (n mod 10)"

fun digits :: "nat \<Rightarrow> string" where
  "digits n = (if n < 10 then [digit n] else digits (n div 10) @ [digit (n mod 10)])"

declare digits.simps [simp del]

text \<open>\<open>toString\<close> of an integer (below the size where JavaScript switches to exponents).\<close>

definition toString :: "int \<Rightarrow> string" where
  "toString i = (if i < 0 then CHR ''-'' # digits (nat (- i)) else digits (nat i))"

definition padStart :: "nat \<Rightarrow> char \<Rightarrow> string \<Rightarrow> string" where
  "padStart n c s = replicate (n - length s) c @ s"

text \<open>\<open>!milliseconds\<close> is true for \<open>null\<close> and for \<open>0\<close>.\<close>

definition formatTime :: "real option \<Rightarrow> string" where
  "formatTime milliseconds =
     (case orNull milliseconds of
        None \<Rightarrow> ''0:00''
      | Some ms \<Rightarrow>
          (let seconds = \<lfloor>ms / 1000\<rfloor>;
               minutes = \<lfloor>real_of_int seconds / 60\<rfloor>;
               remainingSeconds = js_rem seconds 60
           in toString minutes @ '':'' @ padStart 2 (CHR ''0'') (toString remainingSeconds)))"

subsection \<open>Example inputs\<close>

text \<open>A platform on which every promise resolves, and one on which every promise rejects.\<close>

definition resolving :: "handle \<Rightarrow> platform" where
  "resolving h = \<lparr>createAsync = Some h, unloadAsync = True, playAsync = True,
                   pauseAsync = True, setPositionAsync = True\<rparr>"

definition rejecting :: platform where
  "rejecting = \<lparr>createAsync = None, unloadAsync = False, playAsync = False,
                 pauseAsync = False, setPositionAsync = False\<rparr>"

definition hostProps :: props where
  "hostProps = \<lparr>fileUrl = ''a.mp3'', title = None, onPlaybackStatusUpdate = True\<rparr>"

definition finished :: playback where
  "finished = \<lparr>durationMillis = Some 1000, positionMillis = 1000, playing = True,
                didJustFinish = True\<rparr>"

text \<open>A widget that has loaded sound 7 and is half way through a track of one second.\<close>

definition loaded :: widget where
  "loaded = \<lparr>sound = Some 7, isPlaying = True, isLoading = False,
              duration = Some 1000, position = Some 500, error = None\<rparr>"

definition paused :: widget where
  "paused = loaded\<lparr>isPlaying := False\<rparr>"

section \<open>Properties\<close>

lemmas handler_defs = playPause_def loadAudio_def createSound_def loadFailed_def restart_def
  seekTo_def progressBarPress_def statusUpdate_def orNull_def divide_number_def

lemmas example_defs = resolving_def rejecting_def hostProps_def finished_def loaded_def
  paused_def initial_def

subsection \<open>Release on unmount\<close>

text \<open>
  C1. The claim: a widget that has loaded a sound releases it on unmount, by calling
  \<open>unloadAsync\<close> on the sound it holds. The code does not: after one press of play on a
  platform that resolves with sound 7 the widget holds sound 7, and the unmount cleanup
  makes no call at all, because the cleanup closure was created by the first render and
  tests that render's \<open>sound\<close>, which is \<open>null\<close>.
\<close>

theorem unmount_leaves_sound_loaded:
  "sound (fst (step hostProps 364 (PressPlay (resolving 7)) initial)) = Some 7 \<and>
   unmount (fst (step hostProps 364 (PressPlay (resolving 7)) initial)) = []"
  by (simp add: handler_defs example_defs unmount_def cleanup_def)

text \<open>The same for every state: the cleanup never reaches \<open>unloadAsync\<close>.\<close>

lemma unmount_never_unloads: "unmount w = []"
  by (simp add: unmount_def cleanup_def initial_def)

subsection \<open>The first press of play\<close>

text \<open>
  The claim C2 says that a press of play without a loaded sound loads and then plays, so
  that the press ends with the audio playing. At the initial state, on a platform where
  every promise resolves, the press loads sound 7, makes no \<open>playAsync\<close> call and leaves
  the playing flag false.
\<close>

theorem first_press_does_not_play:
  "sound (fst (step hostProps 364 (PressPlay (resolving 7)) initial)) = Some 7 \<and>
   PlayAsync 7 \<notin> set (snd (step hostProps 364 (PressPlay (resolving 7)) initial)) \<and>
   \<not> isPlaying (fst (step hostProps 364 (PressPlay (resolving 7)) initial))"
  by (simp add: handler_defs example_defs)

text \<open>
  C2, as the code has it. A press of play without a loaded sound only loads: no
  \<open>playAsync\<close> call is made in that press and the playing flag stays as it was. When
  \<open>createAsync\<close> resolves with \<open>h\<close>, the calls of the press are exactly the creation
  and the registration of the status function, \<open>h\<close> is stored, and the following press
  of a widget that is not playing is the one that calls \<open>playAsync\<close> on \<open>h\<close>.
\<close>

theorem first_press_loads_only:
  assumes "sound w = None" and "\<not> isLoading w"
  shows "(\<forall>h. PlayAsync h \<notin> set (snd (step pr width (PressPlay p) w))) \<and>
         isPlaying (fst (step pr width (PressPlay p) w)) = isPlaying w \<and>
         (\<forall>h. createAsync p = Some h \<longrightarrow>
            snd (step pr width (PressPlay p) w) =
              [CreateAsync (fileUrl pr) (Some h), SetOnPlaybackStatusUpdate h] \<and>
            sound (fst (step pr width (PressPlay p) w)) = Some h \<and>
            (\<not> isPlaying w \<longrightarrow>
               filter isPlatformCall
                 (snd (step pr width (PressPlay q) (fst (step pr width (PressPlay p) w)))) =
               [PlayAsync h]))"
  using assms by (cases "createAsync p") (simp_all add: handler_defs)

theorem first_press_loads_only_witness:
  "sound initial = None \<and> \<not> isLoading initial \<and>
   createAsync (resolving 7) = Some 7 \<and> \<not> isPlaying initial \<and>
   snd (step hostProps 364 (PressPlay (resolving 7)) initial) =
     [CreateAsync ''a.mp3'' (Some 7), SetOnPlaybackStatusUpdate 7] \<and>
   filter isPlatformCall
     (snd (step hostProps 364 (PressPlay (resolving 7))
        (fst (step hostProps 364 (PressPlay (resolving 7)) initial)))) = [PlayAsync 7]"
  using first_press_loads_only [of initial hostProps 364 "resolving 7" "resolving 7"]
  by (simp add: example_defs)

subsection \<open>Restart\<close>

text \<open>
  C3. Every press of the restart button (which is enabled only with a sound) first calls
  \<open>setPositionAsync(0)\<close> on the sound. If the widget was playing, that seek is the only
  platform call of the press, so nothing pauses or unloads the sound, and the playing
  flag stays set: playback goes on from zero. The code also covers the other case: if the
  widget was not playing and the seek resolved, it calls \<open>playAsync\<close> after the seek.
\<close>

theorem restart_seeks_to_zero:
  assumes "sound w = Some h"
  shows "take 1 (snd (step pr width (PressRestart p) w)) = [SetPositionAsync h (Num 0)] \<and>
         (isPlaying w \<longrightarrow>
            filter isPlatformCall (snd (step pr width (PressRestart p) w)) =
              [SetPositionAsync h (Num 0)] \<and>
            isPlaying (fst (step pr width (PressRestart p) w))) \<and>
         (\<not> isPlaying w \<longrightarrow> setPositionAsync p \<longrightarrow>
            filter isPlatformCall (snd (step pr width (PressRestart p) w)) =
              [SetPositionAsync h (Num 0), PlayAsync h])"
  using assms by (simp add: restart_def)

theorem restart_seeks_to_zero_witness:
  "sound loaded = Some 7 \<and> isPlaying loaded \<and>
   take 1 (snd (step hostProps 364 (PressRestart (resolving 7)) loaded)) =
     [SetPositionAsync 7 (Num 0)] \<and>
   filter isPlatformCall (snd (step hostProps 364 (PressRestart (resolving 7)) loaded)) =
     [SetPositionAsync 7 (Num 0)] \<and>
   isPlaying (fst (step hostProps 364 (PressRestart (resolving 7)) loaded)) \<and>
   sound paused = Some 7 \<and> \<not> isPlaying paused \<and> setPositionAsync (resolving 7) \<and>
   filter isPlatformCall (snd (step hostProps 364 (PressRestart (resolving 7)) paused)) =
     [SetPositionAsync 7 (Num 0), PlayAsync 7]"
  using restart_seeks_to_zero [of loaded 7 hostProps 364 "resolving 7"]
    restart_seeks_to_zero [of paused 7 hostProps 364 "resolving 7"]
  by (simp add: example_defs)

subsection \<open>Failures\<close>

text \<open>
  C4. The claim: every load, playback and seek failure is logged and shown as an error
  text. A seek started from the progress track is the exception in the code: with sound
  7, a duration of one second and a track of 300 pixels, a tap at 150 pixels whose
  \<open>setPositionAsync\<close> rejects is logged, and the widget state, with its empty error
  text, is unchanged.
\<close>

theorem seek_failure_not_surfaced:
  "error loaded = None \<and>
   step hostProps 364 (PressProgressBar rejecting 150) loaded =
     (loaded, [SetPositionAsync 7 (Num 500), ConsoleError ''Error seeking audio:''])"
  by (simp add: handler_defs example_defs)

text \<open>
  The other handlers do set the error text when their promise rejects: the load, the
  toggle, and the seek and the play of restart.
\<close>

lemma load_failure_surfaced:
  "createAsync p = None \<Longrightarrow> sound w = None \<Longrightarrow>
     error (fst (loadAudio uri p w)) = Some ''Gagal memuat file audio''"
  by (simp add: loadAudio_def createSound_def loadFailed_def)

lemma toggle_failure_surfaced:
  "sound w = Some h \<Longrightarrow> \<not> playAsync p \<Longrightarrow> \<not> pauseAsync p \<Longrightarrow>
     error (fst (playPause uri p w)) = Some ''Gagal memutar audio''"
  by (simp add: playPause_def)

lemma restart_failure_surfaced:
  "sound w = Some h \<Longrightarrow> \<not> setPositionAsync p \<Longrightarrow>
     error (fst (restart p w)) = Some ''Gagal mengulang audio''"
  by (simp add: restart_def)

subsection \<open>Status updates\<close>

text \<open>
  The claim C5 says that every status change reaches the host's callback. A status that
  is not loaded does not: with the callback supplied, an error status is logged and the
  callback is not called.
\<close>

theorem not_loaded_status_not_forwarded:
  "onPlaybackStatusUpdate hostProps \<and>
   snd (statusUpdate hostProps (NotLoaded (Some ''decoder failed'')) loaded) =
     [ConsoleError ''Audio playback error:'']"
  by (simp add: handler_defs example_defs)

text \<open>
  C5, as the code has it. With the callback supplied, every loaded status is passed to
  it, once and as it came; a status that is not loaded is never passed to it.
\<close>

theorem loaded_status_forwarded:
  assumes "onPlaybackStatusUpdate pr"
  shows "snd (statusUpdate pr (Loaded s) w) = [OnPlaybackStatusUpdate (Loaded s)] \<and>
         (\<forall>x. OnPlaybackStatusUpdate x \<notin> set (snd (statusUpdate pr (NotLoaded e) w)))"
  using assms by (simp add: statusUpdate_def Let_def split: option.splits)

theorem loaded_status_forwarded_witness:
  "onPlaybackStatusUpdate hostProps \<and>
   snd (statusUpdate hostProps (Loaded finished) loaded) =
     [OnPlaybackStatusUpdate (Loaded finished)]"
  using loaded_status_forwarded [of hostProps finished loaded]
  by (simp add: example_defs)

text \<open>
  C7. A status with \<open>didJustFinish\<close> set puts the displayed position at zero and clears
  the playing flag, whatever the status says about position and playing.
\<close>

theorem finished_status_resets:
  assumes "didJustFinish s"
  shows "position (fst (statusUpdate pr (Loaded s) w)) = Some 0 \<and>
         isPlaying (fst (statusUpdate pr (Loaded s) w)) = False"
  using assms by (simp add: statusUpdate_def Let_def)

theorem finished_status_resets_witness:
  "didJustFinish finished \<and> playing finished \<and>
   position (fst (statusUpdate hostProps (Loaded finished) loaded)) = Some 0 \<and>
   isPlaying (fst (statusUpdate hostProps (Loaded finished) loaded)) = False"
  using finished_status_resets [of finished hostProps loaded]
  by (simp add: example_defs)

subsection \<open>The play and pause toggle\<close>

text \<open>
  C8. A press of the play button with a loaded sound, while nothing is loading, makes
  exactly one platform call: \<open>pauseAsync\<close> if the playing flag is set, \<open>playAsync\<close> if
  it is not. This holds whether the promise resolves or rejects.
\<close>

theorem toggle_exactly_one_call:
  assumes "sound w = Some h" and "\<not> isLoading w"
  shows "filter isPlatformCall (snd (step pr width (PressPlay p) w)) =
           [if isPlaying w then PauseAsync h else PlayAsync h]"
  using assms by (simp add: playPause_def)

theorem toggle_exactly_one_call_witness:
  "sound loaded = Some 7 \<and> \<not> isLoading loaded \<and> isPlaying loaded \<and>
   filter isPlatformCall (snd (step hostProps 364 (PressPlay rejecting) loaded)) =
     [PauseAsync 7] \<and>
   sound paused = Some 7 \<and> \<not> isLoading paused \<and> \<not> isPlaying paused \<and>
   filter isPlatformCall (snd (step hostProps 364 (PressPlay (resolving 7)) paused)) =
     [PlayAsync 7]"
  using toggle_exactly_one_call [of loaded 7 hostProps 364 rejecting]
    toggle_exactly_one_call [of paused 7 hostProps 364 "resolving 7"]
  by (simp add: example_defs)

subsection \<open>A tap on the progress track\<close>

text \<open>
  C6. The track is \<open>width - 64\<close> pixels wide. With a loaded sound and a known duration
  \<open>d\<close> that is not zero, a tap at \<open>locationX\<close> on a track whose width is not zero makes
  exactly one platform call, the seek to \<open>d\<close> times the offset, where the offset is
  \<open>locationX\<close> over the track width clamped to the interval from 0 to 1. For a positive
  duration the target therefore lies between 0 and \<open>d\<close>.
\<close>

theorem progress_tap_seek_target:
  assumes "sound w = Some h" and "duration w = Some d" and "d \<noteq> 0" and "width \<noteq> 64"
  shows "filter isPlatformCall (snd (step pr width (PressProgressBar p locationX) w)) =
           [SetPositionAsync h (Num (d * max 0 (min 1 (locationX / (width - 64)))))] \<and>
         (0 < d \<longrightarrow> 0 \<le> d * max 0 (min 1 (locationX / (width - 64))) \<and>
                     d * max 0 (min 1 (locationX / (width - 64))) \<le> d)"
proof -
  have "0 \<le> max 0 (min 1 (locationX / (width - 64)))"
    and "max 0 (min 1 (locationX / (width - 64))) \<le> 1"
    by simp_all
  then have "0 < d \<longrightarrow> 0 \<le> d * max 0 (min 1 (locationX / (width - 64))) \<and>
                        d * max 0 (min 1 (locationX / (width - 64))) \<le> d"
    by (metis mult_left_le mult_nonneg_nonneg less_imp_le)
  with assms show ?thesis
    by (simp add: handler_defs Let_def)
qed

theorem progress_tap_seek_target_witness:
  "sound loaded = Some 7 \<and> duration loaded = Some 1000 \<and> (0::real) < 1000 \<and>
   (364::real) \<noteq> 64 \<and>
   filter isPlatformCall (snd (step hostProps 364 (PressProgressBar (resolving 7) 450) loaded)) =
     [SetPositionAsync 7 (Num 1000)] \<and>
   filter isPlatformCall (snd (step hostProps 364 (PressProgressBar rejecting 75) loaded)) =
     [SetPositionAsync 7 (Num 250)]"
  using progress_tap_seek_target [of loaded 7 1000 364 hostProps "resolving 7" 450]
    progress_tap_seek_target [of loaded 7 1000 364 hostProps rejecting 75]
  by (simp add: example_defs)

text \<open>
  On a track of width zero the division has no finite value; a tap at offset zero then
  asks the platform to seek to \<open>NaN\<close>.
\<close>

lemma zero_width_track_tap:
  "sound w = Some h \<Longrightarrow> duration w = Some d \<Longrightarrow> d \<noteq> 0 \<Longrightarrow> setPositionAsync p \<Longrightarrow>
     snd (progressBarPress 64 p 0 w) = [SetPositionAsync h NaN]"
  by (simp add: handler_defs)

subsection \<open>The sound is held only after a successful load\<close>

text \<open>Which step can store a sound: only a press of play whose creation resolved.\<close>

lemma step_sound:
  assumes "sound (fst (step pr width e w)) = Some h"
  shows "sound w = Some h \<or>
         (\<exists>p. e = PressPlay p \<and> createAsync p = Some h \<and>
              CreateAsync (fileUrl pr) (Some h) \<in> set (snd (step pr width e w)))"
proof (cases e)
  case (PressPlay p)
  with assms show ?thesis
    by (auto simp: playPause_def loadAudio_def createSound_def loadFailed_def Let_def
        split: if_splits option.splits)
next
  case (PressRestart p)
  with assms show ?thesis
    by (auto simp: restart_def split: if_splits option.splits)
next
  case (PressProgressBar p x)
  with assms show ?thesis
    by (auto simp: progressBarPress_def seekTo_def Let_def split: if_splits option.splits)
next
  case (StatusUpdate st)
  with assms show ?thesis
    by (auto simp: statusUpdate_def Let_def split: if_splits option.splits status.splits)
qed

text \<open>Every handler leaves the loading flag cleared.\<close>

lemma step_not_loading:
  assumes "\<not> isLoading w"
  shows "\<not> isLoading (fst (step pr width e w))"
proof (cases e)
  case (PressPlay p)
  with assms show ?thesis
    by (auto simp: playPause_def loadAudio_def createSound_def loadFailed_def Let_def
        split: if_splits option.splits)
next
  case (PressRestart p)
  with assms show ?thesis
    by (auto simp: restart_def split: if_splits option.splits)
next
  case (PressProgressBar p x)
  with assms show ?thesis
    by (auto simp: progressBarPress_def seekTo_def Let_def split: if_splits option.splits)
next
  case (StatusUpdate st)
  with assms show ?thesis
    by (auto simp: statusUpdate_def Let_def split: if_splits option.splits status.splits)
qed

text \<open>Both facts along a run, from any state and effect list that satisfy them.\<close>

lemma run_created:
  assumes "\<not> isLoading (fst c)"
    and "\<forall>h. sound (fst c) = Some h \<longrightarrow> CreateAsync (fileUrl pr) (Some h) \<in> set (snd c)"
  shows "\<not> isLoading (fst (run pr width es c)) \<and>
         (\<forall>h. sound (fst (run pr width es c)) = Some h \<longrightarrow>
              CreateAsync (fileUrl pr) (Some h) \<in> set (snd (run pr width es c)))"
  using assms
proof (induction es arbitrary: c)
  case Nil
  then show ?case by simp
next
  case (Cons e es)
  let ?c = "(fst (step pr width e (fst c)), snd c @ snd (step pr width e (fst c)))"
  have "\<not> isLoading (fst ?c)"
    using Cons.prems(1) by (simp add: step_not_loading)
  moreover have "\<forall>h. sound (fst ?c) = Some h \<longrightarrow>
                      CreateAsync (fileUrl pr) (Some h) \<in> set (snd ?c)"
    using Cons.prems(2) step_sound [of pr width e "fst c"] by auto
  ultimately show ?case
    using Cons.IH [of ?c] by (simp add: Let_def)
qed

text \<open>
  C9. In every state \<open>w\<close> reached from the initial state by a run of events, with \<open>tr\<close>
  the effects of the run: if \<open>w\<close> holds a sound \<open>h\<close>, then a call of \<open>createAsync\<close>
  that resolved with \<open>h\<close> is in \<open>tr\<close>; a step stores a sound that was not held before
  only if it is a press of play whose \<open>createAsync\<close> resolved with that sound; and a
  load whose \<open>createAsync\<close> rejects leaves the sound \<open>null\<close> and sets the error text.
\<close>

theorem sound_only_after_successful_load:
  assumes "run pr width es (initial, []) = (w, tr)"
  shows "(\<forall>h. sound w = Some h \<longrightarrow> CreateAsync (fileUrl pr) (Some h) \<in> set tr) \<and>
         (\<forall>e h. sound (fst (step pr width e w)) = Some h \<longrightarrow>
              sound w = Some h \<or> (\<exists>p. e = PressPlay p \<and> createAsync p = Some h)) \<and>
         (\<forall>p. sound w = None \<longrightarrow> createAsync p = None \<longrightarrow>
              step pr width (PressPlay p) w =
                (w\<lparr>error := Some ''Gagal memuat file audio''\<rparr>,
                 [CreateAsync (fileUrl pr) None, ConsoleError ''Error loading audio:'']))"
proof -
  have inv: "\<not> isLoading w \<and>
             (\<forall>h. sound w = Some h \<longrightarrow> CreateAsync (fileUrl pr) (Some h) \<in> set tr)"
    using run_created [of "(initial, [])" pr width es] assms by (simp add: initial_def)
  have "sound w = Some h \<or> (\<exists>p. e = PressPlay p \<and> createAsync p = Some h)"
    if "sound (fst (step pr width e w)) = Some h" for e h
    using step_sound [OF that] by blast
  moreover have "step pr width (PressPlay p) w =
                   (w\<lparr>error := Some ''Gagal memuat file audio''\<rparr>,
                    [CreateAsync (fileUrl pr) None, ConsoleError ''Error loading audio:''])"
    if "sound w = None" "createAsync p = None" for p
    using that inv by (simp add: playPause_def loadAudio_def createSound_def loadFailed_def)
  ultimately show ?thesis
    using inv by blast
qed

theorem sound_only_after_successful_load_witness:
  "run hostProps 364 [PressPlay rejecting, PressPlay (resolving 7), PressRestart rejecting]
     (initial, []) =
     (loaded\<lparr>isPlaying := False, duration := None, position := None,
             error := Some ''Gagal mengulang audio''\<rparr>,
      [CreateAsync ''a.mp3'' None, ConsoleError ''Error loading audio:'',
       CreateAsync ''a.mp3'' (Some 7), SetOnPlaybackStatusUpdate 7,
       SetPositionAsync 7 (Num 0), ConsoleError ''Error restarting audio:'']) \<and>
   CreateAsync ''a.mp3'' (Some 7) \<in>
     set [CreateAsync ''a.mp3'' None, ConsoleError ''Error loading audio:'',
          CreateAsync ''a.mp3'' (Some 7), SetOnPlaybackStatusUpdate 7,
          SetPositionAsync 7 (Num 0), ConsoleError ''Error restarting audio:''] \<and>
   run hostProps 364 [] (initial, []) = (initial, []) \<and>
   sound initial = None \<and> createAsync rejecting = None \<and>
   sound (fst (step hostProps 364 (PressPlay rejecting) initial)) = None \<and>
   error (fst (step hostProps 364 (PressPlay rejecting) initial)) =
     Some ''Gagal memuat file audio''"
proof -
  have r: "run hostProps 364
             [PressPlay rejecting, PressPlay (resolving 7), PressRestart rejecting]
             (initial, []) =
           (loaded\<lparr>isPlaying := False, duration := None, position := None,
                   error := Some ''Gagal mengulang audio''\<rparr>,
            [CreateAsync ''a.mp3'' None, ConsoleError ''Error loading audio:'',
             CreateAsync ''a.mp3'' (Some 7), SetOnPlaybackStatusUpdate 7,
             SetPositionAsync 7 (Num 0), ConsoleError ''Error restarting audio:''])"
    by (simp add: handler_defs example_defs)
  have e: "run hostProps 364 [] (initial, []) = (initial, [])"
    by simp
  show ?thesis
    using r e sound_only_after_successful_load [OF r] sound_only_after_successful_load [OF e]
    by (simp add: example_defs)
qed

subsection \<open>The displayed time\<close>

lemma floor_sixty: "\<lfloor>real_of_int s / 60\<rfloor> = s div 60"
  using floor_divide_of_int_eq [of s 60, where ?'a = real] by simp

lemma digits_small: "n < 10 \<Longrightarrow> digits n = [digit n]"
  by (simp add: digits.simps)

text \<open>Zero takes the early return, and the general path would print the same text.\<close>

lemma formatTime_general:
  "formatTime (Some ms) =
     toString (\<lfloor>ms / 1000\<rfloor> div 60) @ '':'' @
     padStart 2 (CHR ''0'') (toString (js_rem \<lfloor>ms / 1000\<rfloor> 60))"
proof (cases "ms = 0")
  case True
  then show ?thesis
    by (simp add: formatTime_def orNull_def js_rem_def toString_def padStart_def
        digits_small digit_def)
next
  case False
  then show ?thesis
    by (simp add: formatTime_def orNull_def Let_def floor_sixty)
qed

text \<open>A number of seconds below sixty is printed with exactly two digits.\<close>

lemma two_digits:
  assumes "n < 60"
  shows "padStart 2 (CHR ''0'') (digits n) = [digit (n div 10), digit (n mod 10)]"
proof (cases "n < 10")
  case True
  then show ?thesis by (simp add: digits_small padStart_def digit_def)
next
  case False
  with assms have "n div 10 < 10" by simp
  with False show ?thesis
    by (subst digits.simps) (simp add: digits_small padStart_def)
qed

text \<open>
  C10. \<open>formatTime\<close> gives \<open>0:00\<close> for \<open>null\<close> and for 0. For every number of
  milliseconds it gives the minutes, a colon and the seconds padded on the left with
  \<open>0\<close> to two characters, where the whole seconds are the floor of the milliseconds over
  1000, the minutes are the floor of the seconds over 60 and the seconds shown are the
  remainder of the seconds by 60. For a time that is not negative the minutes are the
  decimal digits of the quotient and the seconds are exactly the two digits of the
  remainder.
\<close>

theorem formatTime_minutes_seconds:
  "formatTime None = ''0:00'' \<and> formatTime (Some 0) = ''0:00'' \<and>
   formatTime (Some ms) =
     toString (\<lfloor>ms / 1000\<rfloor> div 60) @ '':'' @
     padStart 2 (CHR ''0'') (toString (js_rem \<lfloor>ms / 1000\<rfloor> 60)) \<and>
   (0 \<le> ms \<longrightarrow> formatTime (Some ms) =
      digits (nat \<lfloor>ms / 1000\<rfloor> div 60) @ '':'' @
      [digit (nat \<lfloor>ms / 1000\<rfloor> mod 60 div 10), digit (nat \<lfloor>ms / 1000\<rfloor> mod 60 mod 10)])"
proof -
  have "formatTime (Some ms) =
      digits (nat \<lfloor>ms / 1000\<rfloor> div 60) @ '':'' @
      [digit (nat \<lfloor>ms / 1000\<rfloor> mod 60 div 10), digit (nat \<lfloor>ms / 1000\<rfloor> mod 60 mod 10)]"
    if "0 \<le> ms"
  proof -
    define s where "s = \<lfloor>ms / 1000\<rfloor>"
    from that have s: "0 \<le> s" by (simp add: s_def)
    then have m: "0 \<le> s div 60" by (simp add: pos_imp_zdiv_nonneg_iff)
    have r: "js_rem s 60 = s mod 60"
      using s by (cases "s = 0") (simp_all add: js_rem_def)
    have r0: "\<not> s mod 60 < 0" by simp
    have "nat (s mod 60) < 60" by simp
    then have "padStart 2 (CHR ''0'') (digits (nat (s mod 60))) =
       [digit (nat (s mod 60) div 10), digit (nat (s mod 60) mod 10)]"
      by (rule two_digits)
    moreover have "nat (s mod 60) = nat s mod 60" "nat (s div 60) = nat s div 60"
      using s by (simp_all add: nat_mod_distrib nat_div_distrib)
    ultimately show ?thesis
      using m r0 r unfolding formatTime_general s_def [symmetric]
      by (simp add: toString_def)
  qed
  then show ?thesis
    using formatTime_general [of ms] by (simp add: formatTime_def orNull_def)
qed

theorem formatTime_minutes_seconds_witness:
  "(0::real) \<le> 125000 \<and> formatTime (Some 125000) = ''2:05''"
  using formatTime_minutes_seconds [of 125000, THEN conjunct2, THEN conjunct2, THEN conjunct2]
  by (simp add: digits_small digit_def)

end
